theory Spec2Isabelle
  imports Complex_Main "HOL-Library.Word" "HOL-Library.Sublist" "HOL-Library.Char_ord"
    "HOL-Library.List_Lexorder" "HOL-Library.Multiset"
begin

unbundle bit_operations_syntax

section \<open>Strings\<close>

text \<open>
  A Python \<open>str\<close> is modelled as a \<open>string\<close> whose characters are the code points
  0..255 (Latin-1). \<open>bytes\<close> values are kept apart by name only.
\<close>

type_synonym bytes = string

text \<open>\<open>str.isspace\<close> on one code point below 256.\<close>

definition isspace :: "char \<Rightarrow> bool" where
  "isspace c = (let n = (of_char c :: nat) in
     (9 \<le> n \<and> n \<le> 13) \<or> (28 \<le> n \<and> n \<le> 32) \<or> n = 133 \<or> n = 160)"

definition lstrip :: "string \<Rightarrow> string" where
  "lstrip s = dropWhile isspace s"

definition rstrip :: "string \<Rightarrow> string" where
  "rstrip s = rev (dropWhile isspace (rev s))"

text \<open>\<open>s.strip()\<close>: whitespace removed at both ends.\<close>

definition strip :: "string \<Rightarrow> string" where
  "strip s = rstrip (lstrip s)"

text \<open>\<open>s.lstrip("/")\<close>.\<close>

definition lstrip_slash :: "string \<Rightarrow> string" where
  "lstrip_slash s = dropWhile (\<lambda>c. c = CHR ''/'') s"

text \<open>\<open>str.lower\<close> on one code point below 256: A..Z and the upper-case letters of Latin-1.\<close>

definition lower_char :: "char \<Rightarrow> char" where
  "lower_char c = (let n = (of_char c :: nat) in
     if (65 \<le> n \<and> n \<le> 90) \<or> (192 \<le> n \<and> n \<le> 222 \<and> n \<noteq> 215)
     then char_of (n + 32) else c)"

definition lower :: "string \<Rightarrow> string" where
  "lower s = map lower_char s"

text \<open>\<open>s.startswith(p)\<close> and \<open>q in s\<close> (substring test).\<close>

definition startswith :: "string \<Rightarrow> string \<Rightarrow> bool" where
  "startswith s p = (take (length p) s = p)"

fun contains :: "string \<Rightarrow> string \<Rightarrow> bool" where
  "contains [] q = (q = [])"
| "contains (c # s) q = (startswith (c # s) q \<or> contains s q)"

section \<open>SHA-1 (\<open>hashlib.sha1(...).hexdigest()\<close>) over the UTF-8 encoding\<close>

definition utf8_encode :: "string \<Rightarrow> 8 word list" where
  "utf8_encode s = concat (map (\<lambda>c. let n = (of_char c :: nat) in
       if n < 128 then [of_nat n] else [of_nat (192 + n div 64), of_nat (128 + n mod 64)]) s)"

definition sha1_pad :: "8 word list \<Rightarrow> 8 word list" where
  "sha1_pad m = (let l = length m; z = (119 - l mod 64) mod 64; bits = (of_nat (8 * l) :: 64 word)
     in m @ [0x80] @ replicate z 0 @ map (\<lambda>i. ucast (drop_bit (8 * (7 - i)) bits)) [0..<8])"

definition be32 :: "8 word list \<Rightarrow> 32 word" where
  "be32 bs = foldl (\<lambda>acc b. push_bit 8 acc OR ucast b) 0 bs"

fun chunks :: "nat \<Rightarrow> nat \<Rightarrow> 'a list \<Rightarrow> 'a list list" where
  "chunks 0 k xs = []"
| "chunks (Suc n) k xs = take k xs # chunks n k (drop k xs)"

text \<open>The message schedule, newest word first.\<close>

fun expand :: "nat \<Rightarrow> 32 word list \<Rightarrow> 32 word list" where
  "expand 0 ws = ws"
| "expand (Suc n) ws = expand n (word_rotl 1 (ws ! 2 XOR ws ! 7 XOR ws ! 13 XOR ws ! 15) # ws)"

type_synonym sha1_state = "32 word \<times> 32 word \<times> 32 word \<times> 32 word \<times> 32 word"

definition sha1_round :: "sha1_state \<Rightarrow> nat \<times> 32 word \<Rightarrow> sha1_state" where
  "sha1_round st tw = (case st of (a, b, c, d, e) \<Rightarrow> case tw of (t, w) \<Rightarrow>
     let (f, k) = (if t < 20 then ((b AND c) OR (NOT b AND d), 0x5A827999)
                   else if t < 40 then (b XOR c XOR d, 0x6ED9EBA1)
                   else if t < 60 then ((b AND c) OR (b AND d) OR (c AND d), 0x8F1BBCDC)
                   else (b XOR c XOR d, 0xCA62C1D6));
         temp = word_rotl 5 a + f + e + k + w
     in (temp, a, word_rotl 30 b, c, d))"

definition sha1_block :: "sha1_state \<Rightarrow> 8 word list \<Rightarrow> sha1_state" where
  "sha1_block h blk = (case h of (h0, h1, h2, h3, h4) \<Rightarrow>
     let ws = rev (expand 64 (rev (map be32 (chunks 16 4 blk))));
         r = foldl sha1_round h (zip [0..<80] ws)
     in case r of (a, b, c, d, e) \<Rightarrow> (h0 + a, h1 + b, h2 + c, h3 + d, h4 + e))"

definition hex_digit :: "nat \<Rightarrow> char" where
  "hex_digit n = (if n < 10 then char_of (48 + n) else char_of (87 + n))"

definition hex32 :: "32 word \<Rightarrow> string" where
  "hex32 w = map (\<lambda>i. hex_digit (unat (drop_bit (4 * (7 - i)) w AND 0xF))) [0..<8]"

definition sha1_hexdigest :: "8 word list \<Rightarrow> string" where
  "sha1_hexdigest m = (let p = sha1_pad m;
       r = foldl sha1_block (0x67452301, 0xEFCDAB89, 0x98BADCFE, 0x10325476, 0xC3D2E1F0)
             (chunks (length p div 64) 64 p)
     in case r of (a, b, c, d, e) \<Rightarrow> hex32 a @ hex32 b @ hex32 c @ hex32 d @ hex32 e)"

section \<open>utils.py\<close>

text \<open>
  \<open>generate_stable_id(title, link, guid)\<close>: the stripped GUID when it is given and
  non-empty after stripping, otherwise the SHA-1 of \<open>f"{title.strip()}|{link.strip()}"\<close>.
\<close>

definition generate_stable_id :: "string \<Rightarrow> string \<Rightarrow> string option \<Rightarrow> string" where
  "generate_stable_id title link guid =
     (let combined = strip title @ ''|'' @ strip link;
          hashed = sha1_hexdigest (utf8_encode combined)
      in case guid of
           None \<Rightarrow> hashed
         | Some g \<Rightarrow> if g \<noteq> [] then (let guid_clean = strip g in
                                      if guid_clean \<noteq> [] then guid_clean else hashed)
                     else hashed)"

section \<open>Errors and the outside world\<close>

text \<open>
  The exceptions the code raises or lets through. \<open>ValueError\<close> carries its message;
  the three messages of \<open>parse_items\<close> are named below (the first one is followed in the
  source by the XML library's own text, which is left out).
\<close>

datatype error =
    RequestError
  | HTTPStatusError
  | ValueError string
  | ValidationError
  | TypeError

definition invalid_xml :: error where
  "invalid_xml = ValueError ''Invalid RSS XML''"

definition missing_channel :: error where
  "missing_channel = ValueError ''RSS feed missing 'channel' element''"

definition no_valid_items :: error where
  "no_valid_items = ValueError ''No valid press items found in RSS feed''"

text \<open>An element of the parsed document: tag, text (\<open>None\<close> when absent), children.\<close>

datatype element = Element (tag: string) (elem_text: "string option") (children: "element list")

definition find_child :: "element \<Rightarrow> string \<Rightarrow> element option" where
  "find_child e name = List.find (\<lambda>c. tag c = name) (children e)"

definition findall :: "element \<Rightarrow> string \<Rightarrow> element list" where
  "findall e name = filter (\<lambda>c. tag c = name) (children e)"

text \<open>\<open>elem is not None and elem.text\<close>: the text when the element exists and its text is truthy.\<close>

definition truthy_text :: "element option \<Rightarrow> string option" where
  "truthy_text eo = (case eo of None \<Rightarrow> None
     | Some e \<Rightarrow> (case elem_text e of None \<Rightarrow> None | Some t \<Rightarrow> if t = [] then None else Some t))"

type_synonym datetime = int

text \<open>
  The libraries and services the code calls, as parameters:
  \<^item> \<open>fromstring\<close>: the XML parser; \<open>None\<close> is its syntax error;
  \<^item> \<open>anyurl\<close>: the URL validation of the item model; \<open>None\<close> is a validation error,
    otherwise the stored URL;
  \<^item> \<open>dateutil_parse\<close>: the date parser, which completes a partial date from the
    current time (its first argument); \<open>None\<close> is any exception it raises;
  \<^item> \<open>http_get\<close>: the outcome of the k-th HTTP request (after \<open>raise_for_status\<close>).
\<close>

record env =
  fromstring :: "bytes \<Rightarrow> element option"
  anyurl :: "string \<Rightarrow> string option"
  dateutil_parse :: "datetime \<Rightarrow> string \<Rightarrow> datetime option"
  http_get :: "nat \<Rightarrow> error + bytes"

section \<open>models.py\<close>

record press_item =
  item_id :: string
  title :: string
  link :: string
  description :: "string option"
  published_at :: datetime
  categories :: "string list"
  raw_guid :: "string option"
  source :: string

definition base_url :: string where
  "base_url = ''https://www.stadt-koeln.de''"

text \<open>One pass of the loop over the category elements of \<open>from_rss_item\<close>, and the loop.\<close>

definition category_step :: "element \<Rightarrow> string list \<Rightarrow> string list" where
  "category_step cat_elem acc =
     (case elem_text cat_elem of
        None \<Rightarrow> acc
      | Some t \<Rightarrow>
          if t \<noteq> [] \<and> strip t \<noteq> [] then
            (let cat_text = strip t in if cat_text \<noteq> [] then acc @ [cat_text] else acc)
          else acc)"

fun category_loop :: "element list \<Rightarrow> string list \<Rightarrow> string list" where
  "category_loop [] acc = acc"
| "category_loop (cat_elem # rest) acc = category_loop rest (category_step cat_elem acc)"

text \<open>The parts of \<open>from_rss_item\<close>, in the order of the source.\<close>

definition extract_title :: "element \<Rightarrow> string" where
  "extract_title item_element =
     (case truthy_text (find_child item_element ''title'') of
        Some t \<Rightarrow> strip t | None \<Rightarrow> ''Unbekannter Titel'')"

definition extract_link :: "element \<Rightarrow> string" where
  "extract_link item_element =
     (let link_text = (case truthy_text (find_child item_element ''link'') of
                         Some t \<Rightarrow> strip t | None \<Rightarrow> [])
      in if startswith link_text ''/'' then base_url @ link_text
         else if \<not> startswith link_text ''http'' then base_url @ ''/'' @ lstrip_slash link_text
         else link_text)"

definition extract_description :: "element \<Rightarrow> string option" where
  "extract_description item_element =
     (case truthy_text (find_child item_element
              ''{http://purl.org/rss/1.0/modules/content/}encoded'') of
        Some t \<Rightarrow> Some t
      | None \<Rightarrow> truthy_text (find_child item_element ''description''))"

definition extract_published_at :: "env \<Rightarrow> datetime \<Rightarrow> element \<Rightarrow> datetime" where
  "extract_published_at ev now item_element =
     (case truthy_text (find_child item_element ''pubDate'') of
        None \<Rightarrow> now
      | Some t \<Rightarrow> (case dateutil_parse ev now (strip t) of Some d \<Rightarrow> d | None \<Rightarrow> now))"

definition extract_guid :: "element \<Rightarrow> string option" where
  "extract_guid item_element =
     (case truthy_text (find_child item_element ''guid'') of
        Some t \<Rightarrow> Some (strip t) | None \<Rightarrow> None)"

text \<open>
  \<open>from_rss_item(item_element)\<close>, with \<open>now\<close> the reading of \<open>datetime.now()\<close>.
  The only exception that escapes is the validation error of the link.
\<close>

definition from_rss_item :: "env \<Rightarrow> datetime \<Rightarrow> element \<Rightarrow> error + press_item" where
  "from_rss_item ev now item_element =
     (let title' = extract_title item_element;
          link_text = extract_link item_element;
          description' = extract_description item_element;
          published = extract_published_at ev now item_element;
          cats = category_loop (findall item_element ''category'') [];
          guid = extract_guid item_element;
          the_id = generate_stable_id title' link_text guid
      in case anyurl ev link_text of
           None \<Rightarrow> Inl ValidationError
         | Some url \<Rightarrow> Inr \<lparr> item_id = the_id, title = title', link = url,
                description = description', published_at = published, categories = cats,
                raw_guid = guid, source = ''rss:stadt-koeln'' \<rparr>)"

section \<open>rss_client.py: parsing\<close>

text \<open>
  The loop of \<open>parse_items\<close> over the item elements; \<open>clock k\<close> is what
  \<open>datetime.now()\<close> reads while the k-th entry is processed. A failing entry is skipped.
\<close>

fun parse_loop ::
  "env \<Rightarrow> (nat \<Rightarrow> datetime) \<Rightarrow> nat \<Rightarrow> element list \<Rightarrow> press_item list \<Rightarrow> press_item list" where
  "parse_loop ev clock k [] items = items"
| "parse_loop ev clock k (item_elem # rest) items =
     (case from_rss_item ev (clock k) item_elem of
        Inr press_item \<Rightarrow> parse_loop ev clock (Suc k) rest (items @ [press_item])
      | Inl e \<Rightarrow> parse_loop ev clock (Suc k) rest items)"

definition parse_items :: "env \<Rightarrow> (nat \<Rightarrow> datetime) \<Rightarrow> bytes \<Rightarrow> error + press_item list" where
  "parse_items ev clock xml_data =
     (case fromstring ev xml_data of
        None \<Rightarrow> Inl invalid_xml
      | Some root_elem \<Rightarrow>
          (case find_child root_elem ''channel'' of
             None \<Rightarrow> Inl missing_channel
           | Some channel \<Rightarrow>
               (let items = parse_loop ev clock 0 (findall channel ''item'') []
                in if items = [] then Inl no_valid_items else Inr items)))"

section \<open>utils.py: retry_on_failure\<close>

text \<open>
  What the program does to the outside: the number of HTTP requests made so far and the
  waits (\<open>asyncio.sleep\<close>) performed, oldest first.
\<close>

record world =
  requests :: nat
  sleeps :: "real list"

type_synonym 'a action = "world \<Rightarrow> (error + 'a) \<times> world"

text \<open>
  The \<open>for attempt in range(max_attempts)\<close> loop of \<open>async_wrapper\<close>, over the
  remaining attempt indices. \<open>excs\<close> says which exceptions the \<open>except\<close> clause
  catches; any other exception leaves at once. Falling out of the loop raises the last
  exception if there is one and returns \<open>None\<close> otherwise.
\<close>

fun retry_loop ::
  "int \<Rightarrow> real \<Rightarrow> real \<Rightarrow> (error \<Rightarrow> bool) \<Rightarrow> 'a action \<Rightarrow> error option \<Rightarrow> nat list \<Rightarrow> world
     \<Rightarrow> (error + 'a option) \<times> world" where
  "retry_loop max_attempts delay backoff_factor excs func last_exception [] w =
     (case last_exception of Some e \<Rightarrow> (Inl e, w) | None \<Rightarrow> (Inr None, w))"
| "retry_loop max_attempts delay backoff_factor excs func last_exception (attempt # rest) w =
     (case func w of
        (Inr v, w') \<Rightarrow> (Inr (Some v), w')
      | (Inl e, w') \<Rightarrow>
          if excs e then
            (if int attempt < max_attempts - 1 then
               retry_loop max_attempts delay backoff_factor excs func (Some e) rest
                 (w'\<lparr>sleeps := sleeps w' @ [delay * backoff_factor ^ attempt]\<rparr>)
             else (Inl e, w'))
          else (Inl e, w'))"

definition async_wrapper ::
  "int \<Rightarrow> real \<Rightarrow> real \<Rightarrow> (error \<Rightarrow> bool) \<Rightarrow> 'a action \<Rightarrow> world \<Rightarrow> (error + 'a option) \<times> world" where
  "async_wrapper max_attempts delay backoff_factor excs func w =
     retry_loop max_attempts delay backoff_factor excs func None [0..<nat max_attempts] w"

section \<open>rss_client.py: the client and its cache\<close>

record rss_client =
  rss_url :: string
  cache_ttl :: int
  http_timeout :: int
  max_retries :: int
  cached_items :: "press_item list option"
  last_fetch :: "real option"

text \<open>Python's \<open>x or y\<close> for an optional integer \<open>x\<close>: \<open>None\<close> and 0 are falsy.\<close>

definition or_default :: "int option \<Rightarrow> int \<Rightarrow> int" where
  "or_default x y = (case x of None \<Rightarrow> y | Some v \<Rightarrow> if v = 0 then y else v)"

text \<open>
  \<open>RssClient.__init__\<close> (the \<open>TTLCache\<close> object it creates is never read and is left
  out). The last three arguments are the values of
  \<open>int(os.getenv('CACHE_TTL', '300'))\<close>, \<open>int(os.getenv('HTTP_TIMEOUT', '8'))\<close> and
  \<open>int(os.getenv('HTTP_RETRIES', '3'))\<close>.
\<close>

definition RssClient_init :: "int option \<Rightarrow> int option \<Rightarrow> int option \<Rightarrow> int \<Rightarrow> int \<Rightarrow> int \<Rightarrow> rss_client" where
  "RssClient_init cache_ttl' http_timeout' max_retries' env_ttl env_timeout env_retries =
     \<lparr> rss_url = ''https://www.stadt-koeln.de/externe-dienste/rss/pressemeldungen.xml'',
       cache_ttl = or_default cache_ttl' env_ttl,
       http_timeout = or_default http_timeout' env_timeout,
       max_retries = or_default max_retries' env_retries,
       cached_items = None,
       last_fetch = None \<rparr>"

text \<open>The body of \<open>fetch_raw\<close>: one HTTP request, whose outcome the world supplies.\<close>

definition http_request :: "env \<Rightarrow> rss_client \<Rightarrow> bytes action" where
  "http_request ev self w = (http_get ev (requests w), w\<lparr>requests := Suc (requests w)\<rparr>)"

text \<open>The \<open>exceptions\<close> tuple of the decorator on \<open>fetch_raw\<close>.\<close>

definition fetch_exceptions :: "error \<Rightarrow> bool" where
  "fetch_exceptions e = (e = RequestError \<or> e = HTTPStatusError)"

text \<open>
  \<open>fetch_raw\<close> as decorated:
  \<open>@retry_on_failure(max_attempts=3, delay=1.0, backoff_factor=2.0, exceptions=...)\<close>.
\<close>

definition fetch_raw :: "env \<Rightarrow> rss_client \<Rightarrow> world \<Rightarrow> (error + bytes option) \<times> world" where
  "fetch_raw ev self w = async_wrapper 3 1 2 fetch_exceptions (http_request ev self) w"

text \<open>The \<open>except Exception\<close> block of \<open>load_items_cached\<close>.\<close>

definition stale_or_raise ::
  "error \<Rightarrow> rss_client \<Rightarrow> world \<Rightarrow> (error + press_item list) \<times> rss_client \<times> world" where
  "stale_or_raise e self w =
     (case cached_items self of
        Some items \<Rightarrow> (Inr items, self, w)
      | None \<Rightarrow> (Inl e, self, w))"

text \<open>
  The \<open>try\<close> block of \<open>load_items_cached\<close>. A fetch that returned \<open>None\<close> makes the
  XML parser raise a type error.
\<close>

definition fetch_and_store ::
  "env \<Rightarrow> (nat \<Rightarrow> datetime) \<Rightarrow> real \<Rightarrow> rss_client \<Rightarrow> world
     \<Rightarrow> (error + press_item list) \<times> rss_client \<times> world" where
  "fetch_and_store ev clock current_time self w =
     (case fetch_raw ev self w of
        (Inl e, w') \<Rightarrow> stale_or_raise e self w'
      | (Inr None, w') \<Rightarrow> stale_or_raise TypeError self w'
      | (Inr (Some xml_data), w') \<Rightarrow>
          (case parse_items ev clock xml_data of
             Inl e \<Rightarrow> stale_or_raise e self w'
           | Inr items \<Rightarrow>
               (Inr items, self\<lparr>cached_items := Some items, last_fetch := Some current_time\<rparr>, w')))"

text \<open>
  The test at the head of \<open>load_items_cached\<close>: there are cached items, a time of the
  last fetch, and the age is below the TTL.
\<close>

definition cache_valid :: "rss_client \<Rightarrow> real \<Rightarrow> bool" where
  "cache_valid self current_time =
     (cached_items self \<noteq> None \<and> last_fetch self \<noteq> None \<and>
      (case last_fetch self of
         Some t0 \<Rightarrow> current_time - t0 < real_of_int (cache_ttl self)
       | None \<Rightarrow> False))"

text \<open>\<open>load_items_cached\<close>, with \<open>current_time\<close> the reading of \<open>time.time()\<close>.\<close>

definition load_items_cached ::
  "env \<Rightarrow> (nat \<Rightarrow> datetime) \<Rightarrow> real \<Rightarrow> rss_client \<Rightarrow> world
     \<Rightarrow> (error + press_item list) \<times> rss_client \<times> world" where
  "load_items_cached ev clock current_time self w =
     (if cache_valid self current_time then
        (case cached_items self of
           Some items \<Rightarrow> (Inr items, self, w)
         | None \<Rightarrow> fetch_and_store ev clock current_time self w)
      else fetch_and_store ev clock current_time self w)"

section \<open>rss_client.py: queries\<close>

text \<open>The slice \<open>xs[:n]\<close>; a negative \<open>n\<close> counts from the end.\<close>

definition slice_to :: "'a list \<Rightarrow> int \<Rightarrow> 'a list" where
  "slice_to xs n = (if n < 0 then take (nat (int (length xs) + n)) xs else take (nat n) xs)"

text \<open>\<open>_score_item\<close>; \<open>item.title or ""\<close> is the title, \<open>item.description or ""\<close> is
  the description or the empty string.\<close>

definition score_item :: "press_item \<Rightarrow> string \<Rightarrow> int" where
  "score_item item query =
     (let score0 = (0::int);
          score1 = (if contains (lower (title item)) query then score0 + 3 else score0);
          score2 = fold (\<lambda>category score. if contains (lower category) query then score + 2 else score)
                     (categories item) score1;
          score3 = (if contains (lower (case description item of None \<Rightarrow> [] | Some d \<Rightarrow> d)) query
                    then score2 + 1 else score2)
      in score3)"

text \<open>The scoring loop of \<open>search_items\<close>.\<close>

fun score_loop :: "press_item list \<Rightarrow> string \<Rightarrow> (int \<times> press_item) list \<Rightarrow> (int \<times> press_item) list" where
  "score_loop [] query_lower scored_items = scored_items"
| "score_loop (item # rest) query_lower scored_items =
     (let score = score_item item query_lower in
        if score > 0 then score_loop rest query_lower (scored_items @ [(score, item)])
        else score_loop rest query_lower scored_items)"

text \<open>
  \<open>scored_items.sort(key=lambda x: x[0], reverse=True)\<close>: Python's sort is stable, also
  with \<open>reverse=True\<close>; it is modelled by a stable insertion sort on the negated key.
\<close>

definition sort_reverse :: "(int \<times> press_item) list \<Rightarrow> (int \<times> press_item) list" where
  "sort_reverse scored_items = sort_key (\<lambda>x. - fst x) scored_items"

definition search_items ::
  "env \<Rightarrow> (nat \<Rightarrow> datetime) \<Rightarrow> real \<Rightarrow> rss_client \<Rightarrow> world \<Rightarrow> string \<Rightarrow> int
     \<Rightarrow> (error + press_item list) \<times> rss_client \<times> world" where
  "search_items ev clock current_time self w query limit =
     (case load_items_cached ev clock current_time self w of
        (Inl e, self', w') \<Rightarrow> (Inl e, self', w')
      | (Inr items, self', w') \<Rightarrow>
          (let query_lower = strip (lower query) in
             if query_lower = [] then (Inr (slice_to items limit), self', w')
             else
               (let scored_items = sort_reverse (score_loop items query_lower [])
                in (Inr (map snd (slice_to scored_items limit)), self', w'))))"

text \<open>\<open>get_categories\<close>: the set built by the loop, then \<open>sorted(list(categories))\<close>.\<close>

definition get_categories :: "rss_client \<Rightarrow> string list" where
  "get_categories self =
     (case cached_items self of
        None \<Rightarrow> []
      | Some items \<Rightarrow>
          sorted_list_of_set (fold (\<lambda>item cats. cats \<union> set (categories item)) items {}))"

section \<open>The scoring rule as the specification words it\<close>

text \<open>
  +3 if the query is a substring of the (lower-cased) title, +2 for every category that
  contains it, +1 if the description contains it.
\<close>

definition relevance :: "string \<Rightarrow> press_item \<Rightarrow> int" where
  "relevance q item =
     (if sublist q (lower (title item)) then 3 else 0)
     + 2 * int (length (filter (\<lambda>c. sublist q (lower c)) (categories item)))
     + (case description item of None \<Rightarrow> 0 | Some d \<Rightarrow> if sublist q (lower d) then 1 else 0)"

section \<open>Example data\<close>

text \<open>A feed that cannot be reached: every request fails with a transport error.\<close>

definition down_env :: env where
  "down_env = \<lparr> fromstring = (\<lambda>_. None), anyurl = (\<lambda>_. None),
      dateutil_parse = (\<lambda>_ _. None), http_get = (\<lambda>_. Inl RequestError) \<rparr>"

definition world0 :: world where
  "world0 = \<lparr> requests = 0, sleeps = [] \<rparr>"

definition example_item :: "string \<Rightarrow> string \<Rightarrow> string option \<Rightarrow> string list \<Rightarrow> press_item" where
  "example_item i t d cs = \<lparr> item_id = i, title = t, link = ''https://www.stadt-koeln.de/'' @ i,
      description = d, published_at = 0, categories = cs, raw_guid = Some i,
      source = ''rss:stadt-koeln'' \<rparr>"

definition example_snapshot :: "press_item list" where
  "example_snapshot =
     [example_item ''1'' ''Stadtrat tagt'' (Some ''Neue Baustellen im Zentrum'') [''Politik''],
      example_item ''2'' ''Verkehrslage'' None [''Verkehr'', ''Baustellen''],
      example_item ''3'' ''Kultur im Park'' None [''Kultur''],
      example_item ''4'' ''Umleitung'' None [''Baustellen''],
      example_item ''5'' ''Baustellen News'' None []]"

text \<open>A client built with \<open>max_retries=5\<close> whose snapshot was taken at time 0 (TTL 300).\<close>

definition example_client :: rss_client where
  "example_client = (RssClient_init None None (Some 5) 300 8 3)
      \<lparr> cached_items := Some example_snapshot, last_fetch := Some 0 \<rparr>"

text \<open>A client that has never loaded anything.\<close>

definition new_client :: rss_client where
  "new_client = RssClient_init None None None 300 8 3"

text \<open>
  Example feeds. \<open>example_env\<close> gives the XML parser on the documents below (any other
  input is taken as malformed), accepts as URL what starts with the base URL and a slash,
  and parses the one date that occurs.
\<close>

definition pub_date :: string where
  "pub_date = ''Tue, 15 Oct 2024 10:30:00 +0200''"

definition entry_a :: element where
  "entry_a = Element ''item'' None
     [Element ''guid'' (Some ''42'') [], Element ''title'' (Some ''A'') [],
      Element ''link'' (Some ''/a'') []]"

definition entry_b :: element where
  "entry_b = Element ''item'' None
     [Element ''guid'' (Some ''42'') [], Element ''title'' (Some ''B'') [],
      Element ''link'' (Some ''/b'') []]"

definition entry_c :: element where
  "entry_c = Element ''item'' None
     [Element ''guid'' (Some ''43'') [], Element ''title'' (Some ''A'') [],
      Element ''link'' (Some ''/a'') []]"

definition entry_news :: element where
  "entry_news = Element ''item'' None
     [Element ''title'' (Some '' Baustellen News '') [],
      Element ''link'' (Some ''/pressemeldungen/123'') [],
      Element ''pubDate'' (Some pub_date) [],
      Element ''category'' (Some '' Verkehr '') []]"

definition entry_broken :: element where
  "entry_broken = Element ''item'' None
     [Element ''title'' (Some ''Kaputt'') [], Element ''link'' (Some ''http'') [],
      Element ''pubDate'' (Some pub_date) []]"

definition entry_p :: element where
  "entry_p = Element ''item'' None
     [Element ''title'' (Some ''News|https://www.stadt-koeln.de/a'') [],
      Element ''link'' (Some ''/b'') []]"

definition entry_q :: element where
  "entry_q = Element ''item'' None
     [Element ''title'' (Some ''News'') [],
      Element ''link'' (Some ''/a|https://www.stadt-koeln.de/b'') []]"

definition rss_doc :: "element list \<Rightarrow> element" where
  "rss_doc entries = Element ''rss'' None [Element ''channel'' None entries]"

definition feed_two :: bytes where
  "feed_two = ''<rss><channel><item><guid>42</guid><title>A</title><link>/a</link></item><item><guid>42</guid><title>B</title><link>/b</link></item></channel></rss>''"

definition feed_three :: bytes where
  "feed_three = ''<rss><channel><item><guid>42</guid><title>A</title><link>/a</link></item><item><guid>43</guid><title>A</title><link>/a</link></item></channel></rss>''"

definition feed_mixed :: bytes where
  "feed_mixed = ''<rss><channel><item><title> Baustellen News </title><link>/pressemeldungen/123</link><pubDate>Tue, 15 Oct 2024 10:30:00 +0200</pubDate><category> Verkehr </category></item><item><title>Kaputt</title><link>http</link><pubDate>Tue, 15 Oct 2024 10:30:00 +0200</pubDate></item></channel></rss>''"

definition feed_broken :: bytes where
  "feed_broken = ''<rss><channel><item><title>Kaputt</title><link>http</link><pubDate>Tue, 15 Oct 2024 10:30:00 +0200</pubDate></item></channel></rss>''"

definition feed_no_channel :: bytes where
  "feed_no_channel = ''<rss></rss>''"

definition feed_malformed :: bytes where
  "feed_malformed = ''<rss><channel>''"

definition example_env :: env where
  "example_env = \<lparr>
     fromstring = (\<lambda>d. if d = feed_two then Some (rss_doc [entry_a, entry_b])
                        else if d = feed_three then Some (rss_doc [entry_a, entry_c])
                        else if d = feed_mixed then Some (rss_doc [entry_news, entry_broken])
                        else if d = feed_broken then Some (rss_doc [entry_broken])
                        else if d = feed_no_channel then Some (Element ''rss'' None [])
                        else None),
     anyurl = (\<lambda>u. if startswith u ''https://www.stadt-koeln.de/'' then Some u else None),
     dateutil_parse = (\<lambda>now s. if s = pub_date then Some 1728981000000000 else None),
     http_get = (\<lambda>k. Inr feed_two) \<rparr>"

section \<open>The entries that survive parsing\<close>

text \<open>
  The items of the entries whose parse succeeds, in order; the j-th entry is parsed while
  the clock reads \<open>clock j\<close>.
\<close>

definition surviving :: "env \<Rightarrow> (nat \<Rightarrow> datetime) \<Rightarrow> nat \<Rightarrow> element list \<Rightarrow> press_item list" where
  "surviving ev clock k es =
     List.map_filter (\<lambda>(j, e). case from_rss_item ev (clock j) e of
                                  Inr p \<Rightarrow> Some p | Inl _ \<Rightarrow> None) (enumerate k es)"

section \<open>Strings: basic facts\<close>

lemma strip_idem: "strip (strip s) = strip s"
  unfolding strip_def lstrip_def rstrip_def
  by (metis (no_types, lifting) ext dropWhile_eq_Nil_conv
    dropWhile_eq_self_iff dropWhile_last hd_dropWhile hd_rev rev_is_Nil_conv
    rev_swap)

lemma startswith_prefix: "startswith s p \<longleftrightarrow> prefix p s"
  unfolding startswith_def
  by (metis append_eq_conv_conj prefix_def)

lemma contains_sublist: "contains s q \<longleftrightarrow> sublist q s"
proof (induction s)
  case Nil
  then show ?case by simp
next
  case (Cons c s)
  then show ?case
    by (simp add: startswith_prefix sublist_Cons_right)
qed

lemma lower_Nil: "lower [] = []"
  by (simp add: lower_def)

section \<open>Fetching with retries\<close>

text \<open>Three transient failures in a row: three requests, waits of 1 and 2 seconds, and the
  last error is raised.\<close>

lemma fetch_raw_exhausted:
  assumes "http_get ev (requests w) = Inl e0" and "fetch_exceptions e0"
    and "http_get ev (Suc (requests w)) = Inl e1" and "fetch_exceptions e1"
    and "http_get ev (Suc (Suc (requests w))) = Inl e2" and "fetch_exceptions e2"
  shows "fetch_raw ev self w =
           (Inl e2, w\<lparr>requests := requests w + 3, sleeps := sleeps w @ [1, 2]\<rparr>)"
proof -
  have r: "[0..<3] = [0, 1, (2::nat)]"
    by (simp add: upt_rec)
  show ?thesis
    using assms
    by (simp add: fetch_raw_def async_wrapper_def r http_request_def)
qed

lemma fetch_raw_down:
  "fetch_raw down_env self world0 = (Inl RequestError, \<lparr> requests = 3, sleeps = [1, 2] \<rparr>)"
  using fetch_raw_exhausted [of down_env world0 RequestError RequestError RequestError self]
  by (simp add: down_env_def world0_def fetch_exceptions_def)

text \<open>
  C6. The number of attempts does not follow the client's \<open>max_retries\<close>: a client built
  with \<open>max_retries=5\<close> makes three requests against a feed that is down, waits 1 and 2
  seconds between them, and raises the last error.
\<close>

theorem fetch_raw_fixed_attempts:
  "max_retries example_client = 5
   \<and> fetch_raw down_env example_client world0
       = (Inl RequestError, \<lparr> requests = 3, sleeps = [1, 2] \<rparr>)"
  using fetch_raw_down [of example_client]
  by (simp add: example_client_def RssClient_init_def or_default_def)

section \<open>The cache\<close>

lemma example_client_stale: "\<not> cache_valid example_client 1000"
  by (simp add: cache_valid_def example_client_def RssClient_init_def or_default_def)

lemma new_client_invalid: "\<not> cache_valid new_client t"
  by (simp add: cache_valid_def new_client_def RssClient_init_def)

lemma example_client_load:
  "load_items_cached ev clock 100 example_client w = (Inr example_snapshot, example_client, w)"
  by (simp add: load_items_cached_def cache_valid_def example_client_def RssClient_init_def
      or_default_def)

text \<open>
  C1. When the cache is not valid and the fetch fails, \<open>load_items_cached\<close> returns the
  prior snapshot, leaving the client as it was, if there is one; otherwise it raises the
  error of the fetch.
\<close>

theorem load_items_cached_refresh_failure:
  assumes "\<not> cache_valid self current_time"
    and "fetch_raw ev self w = (Inl e, w')"
  shows "load_items_cached ev clock current_time self w =
           (case cached_items self of
              Some items \<Rightarrow> (Inr items, self, w')
            | None \<Rightarrow> (Inl e, self, w'))"
  using assms
  by (simp add: load_items_cached_def fetch_and_store_def stale_or_raise_def)

theorem load_items_cached_refresh_failure_witness:
  "\<not> cache_valid example_client 1000
   \<and> fetch_raw down_env example_client world0
       = (Inl RequestError, \<lparr> requests = 3, sleeps = [1, 2] \<rparr>)
   \<and> load_items_cached down_env (\<lambda>_. 0) 1000 example_client world0
       = (Inr example_snapshot, example_client, \<lparr> requests = 3, sleeps = [1, 2] \<rparr>)
   \<and> \<not> cache_valid new_client 1000
   \<and> fetch_raw down_env new_client world0
       = (Inl RequestError, \<lparr> requests = 3, sleeps = [1, 2] \<rparr>)
   \<and> load_items_cached down_env (\<lambda>_. 0) 1000 new_client world0
       = (Inl RequestError, new_client, \<lparr> requests = 3, sleeps = [1, 2] \<rparr>)"
proof -
  have c: "cached_items example_client = Some example_snapshot"
    by (simp add: example_client_def)
  have d: "cached_items new_client = None"
    by (simp add: new_client_def RssClient_init_def)
  show ?thesis
    using load_items_cached_refresh_failure
            [OF example_client_stale fetch_raw_down, where clock = "\<lambda>_. 0"]
      load_items_cached_refresh_failure
            [OF new_client_invalid [of 1000] fetch_raw_down, where clock = "\<lambda>_. 0"]
      example_client_stale new_client_invalid [of 1000] fetch_raw_down
    by (simp add: c d)
qed

text \<open>
  C8. With a snapshot whose age is below the TTL at both calls, two consecutive calls of
  \<open>load_items_cached\<close> return that snapshot, leave the client unchanged and make no
  HTTP request.
\<close>

theorem load_items_cached_fresh_twice:
  assumes "cached_items self = Some items" and "last_fetch self = Some t0"
    and "t1 - t0 < real_of_int (cache_ttl self)"
    and "t2 - t0 < real_of_int (cache_ttl self)"
  shows "(case load_items_cached ev clock1 t1 self w of
            (r1, self1, w1) \<Rightarrow>
              (case load_items_cached ev clock2 t2 self1 w1 of
                 (r2, self2, w2) \<Rightarrow>
                   r1 = Inr items \<and> r2 = Inr items \<and> self1 = self \<and> self2 = self
                   \<and> requests w1 = requests w \<and> requests w2 = requests w \<and> w2 = w))"
  using assms
  by (simp add: load_items_cached_def cache_valid_def)

theorem load_items_cached_fresh_twice_witness:
  "(case load_items_cached down_env (\<lambda>_. 0) 100 example_client world0 of
      (r1, self1, w1) \<Rightarrow>
        (case load_items_cached down_env (\<lambda>_. 0) 299 self1 w1 of
           (r2, self2, w2) \<Rightarrow>
             r1 = Inr example_snapshot \<and> r2 = Inr example_snapshot
             \<and> self1 = example_client \<and> self2 = example_client
             \<and> requests w1 = requests world0 \<and> requests w2 = requests world0 \<and> w2 = world0))"
proof -
  have c: "cached_items example_client = Some example_snapshot"
    and l: "last_fetch example_client = Some 0"
    by (simp_all add: example_client_def)
  have t1: "100 - 0 < real_of_int (cache_ttl example_client)"
    and t2: "299 - 0 < real_of_int (cache_ttl example_client)"
    by (simp_all add: example_client_def RssClient_init_def or_default_def)
  show ?thesis
    by (rule load_items_cached_fresh_twice [OF c l t1 t2])
qed

section \<open>Search\<close>

lemma fold_category_score:
  "fold (\<lambda>category score. if P category then score + 2 else score) cs (s::int)
     = s + 2 * int (length (filter P cs))"
  by (induction cs arbitrary: s) simp_all

lemma score_item_relevance:
  assumes "q \<noteq> []"
  shows "score_item item q = relevance q item"
  using assms
  by (cases "description item")
     (simp_all add: score_item_def relevance_def fold_category_score contains_sublist lower_Nil)

lemma score_loop_acc:
  "score_loop items q acc
     = acc @ map (\<lambda>i. (score_item i q, i)) (filter (\<lambda>i. 0 < score_item i q) items)"
  by (induction items arbitrary: acc) (simp_all add: Let_def)

lemma slice_to_nonneg: "0 \<le> n \<Longrightarrow> slice_to xs n = take (nat n) xs"
  by (simp add: slice_to_def)

lemma slice_to_take: "\<exists>m. slice_to xs n = take m xs"
  by (auto simp: slice_to_def)

text \<open>The scored pairs after sorting: facts about the second components.\<close>

lemma sort_reverse_ranked:
  fixes f :: "press_item \<Rightarrow> int"
  assumes "ps = map (\<lambda>i. (f i, i)) xs"
  shows "mset (map snd (sort_reverse ps)) = mset xs"
    and "sorted_wrt (\<lambda>a b. f b \<le> f a) (map snd (sort_reverse ps))"
    and "filter (\<lambda>i. f i = k) (map snd (sort_reverse ps)) = filter (\<lambda>i. f i = k) xs"
proof -
  let ?s = "sort_reverse ps"
  have fst_snd: "fst p = f (snd p)" if "p \<in> set ?s" for p
    using that assms by (auto simp: sort_reverse_def)
  have "mset (map snd ?s) = image_mset snd (mset ps)"
    by (simp add: sort_reverse_def)
  also have "\<dots> = mset (map snd ps)"
    by simp
  also have "map snd ps = xs"
    using assms by (simp add: comp_def)
  finally show "mset (map snd ?s) = mset xs" .
  have "sorted (map (\<lambda>x. - fst x) ?s)"
    by (simp add: sort_reverse_def)
  then have "sorted_wrt (\<lambda>a b. - fst a \<le> - fst b) ?s"
    by (simp add: sorted_map)
  then have "sorted_wrt (\<lambda>a b. f (snd b) \<le> f (snd a)) ?s"
    by (rule sorted_wrt_mono_rel [rotated]) (simp add: fst_snd)
  then show "sorted_wrt (\<lambda>a b. f b \<le> f a) (map snd ?s)"
    by (simp add: sorted_wrt_map)
  have "filter (\<lambda>i. f i = k) (map snd ?s) = map snd (filter (\<lambda>p. f (snd p) = k) ?s)"
    by (simp add: filter_map comp_def)
  also have "filter (\<lambda>p. f (snd p) = k) ?s = filter (\<lambda>p. - fst p = - k) ?s"
    by (rule filter_cong) (simp_all add: fst_snd)
  also have "\<dots> = filter (\<lambda>p. - fst p = - k) ps"
    unfolding sort_reverse_def by (rule sort_key_stable)
  also have "map snd \<dots> = filter (\<lambda>i. f i = k) xs"
    using assms by (simp add: filter_map comp_def)
  finally show "filter (\<lambda>i. f i = k) (map snd ?s) = filter (\<lambda>i. f i = k) xs" .
qed


lemma search_items_unfold:
  assumes "load_items_cached ev clock t self w = (Inr items, self', w')"
  shows "search_items ev clock t self w query limit =
           (Inr (if strip (lower query) = [] then slice_to items limit
                 else map snd (slice_to (sort_reverse (score_loop items (strip (lower query)) [])) limit)),
            self', w')"
  using assms by (simp add: search_items_def Let_def)

lemma prefix_filter_take: "prefix (filter P (take m xs)) (filter P xs)"
  by (metis append_take_drop_id filter_append prefixI)

lemma prefix_filter_positive:
  fixes f :: "'a \<Rightarrow> int"
  shows "prefix (filter (\<lambda>i. f i = k) (filter (\<lambda>i. 0 < f i) xs)) (filter (\<lambda>i. f i = k) xs)"
proof (cases "0 < k")
  case True
  then have "filter (\<lambda>i. f i = k) (filter (\<lambda>i. 0 < f i) xs) = filter (\<lambda>i. f i = k) xs"
    by (auto intro: filter_cong)
  then show ?thesis by simp
next
  case False
  then have "filter (\<lambda>i. f i = k) (filter (\<lambda>i. 0 < f i) xs) = []"
    by (auto simp: filter_empty_conv)
  then show ?thesis by simp
qed

lemma example_query: "strip (lower ''BAUSTELLEN '') = ''baustellen''"
  by code_simp

lemma example_ranking:
  "map snd (slice_to (sort_reverse (score_loop example_snapshot ''baustellen'' [])) 3)
     = [example_item ''5'' ''Baustellen News'' None [],
        example_item ''2'' ''Verkehrslage'' None [''Verkehr'', ''Baustellen''],
        example_item ''4'' ''Umleitung'' None [''Baustellen'']]"
  by code_simp

lemma example_search:
  "search_items ev clock 100 example_client w ''BAUSTELLEN '' 3 =
     (Inr [example_item ''5'' ''Baustellen News'' None [],
           example_item ''2'' ''Verkehrslage'' None [''Verkehr'', ''Baustellen''],
           example_item ''4'' ''Umleitung'' None [''Baustellen'']], example_client, w)"
  by (simp add: search_items_unfold [OF example_client_load] example_query example_ranking)

lemma example_empty_query: "strip (lower ''  '') = []"
  by code_simp

text \<open>
  C2. On the loaded snapshot and for a limit that is not negative: when the stripped,
  lower-cased query is empty, \<open>search_items\<close> returns the first \<open>limit\<close> items of the
  snapshot; otherwise it returns the first \<open>limit\<close> items of an arrangement of exactly
  the items of positive relevance (3 for the title, 2 for every matching category, 1 for
  the description) that is sorted by descending relevance.
\<close>

theorem search_items_ranked:
  assumes "load_items_cached ev clock t self w = (Inr items, self', w')"
    and "0 \<le> limit"
  shows "\<exists>found. search_items ev clock t self w query limit = (Inr found, self', w') \<and>
           (if strip (lower query) = [] then found = take (nat limit) items
            else \<exists>ranked.
                   mset ranked = mset (filter (\<lambda>i. 0 < relevance (strip (lower query)) i) items)
                   \<and> sorted_wrt (\<lambda>a b. relevance (strip (lower query)) b
                                         \<le> relevance (strip (lower query)) a) ranked
                   \<and> found = take (nat limit) ranked)"
proof (cases "strip (lower query) = []")
  case True
  then show ?thesis
    using assms by (simp add: search_items_unfold slice_to_nonneg)
next
  case False
  let ?q = "strip (lower query)"
  let ?xs = "filter (\<lambda>i. 0 < relevance ?q i) items"
  let ?ps = "score_loop items ?q []"
  have ps: "?ps = map (\<lambda>i. (relevance ?q i, i)) ?xs"
    using False by (simp add: score_loop_acc score_item_relevance)
  let ?ranked = "map snd (sort_reverse ?ps)"
  have "mset ?ranked = mset ?xs"
    and "sorted_wrt (\<lambda>a b. relevance ?q b \<le> relevance ?q a) ?ranked"
    using sort_reverse_ranked [OF ps] by blast+
  then have ex: "\<exists>ranked. mset ranked = mset ?xs
                   \<and> sorted_wrt (\<lambda>a b. relevance ?q b \<le> relevance ?q a) ranked
                   \<and> take (nat limit) ?ranked = take (nat limit) ranked"
    by blast
  have found: "search_items ev clock t self w query limit
                 = (Inr (take (nat limit) ?ranked), self', w')"
    using assms False by (simp add: search_items_unfold slice_to_nonneg take_map)
  show ?thesis
  proof (intro exI conjI)
    show "search_items ev clock t self w query limit
            = (Inr (take (nat limit) ?ranked), self', w')"
      by (rule found)
    show "if ?q = [] then take (nat limit) ?ranked = take (nat limit) items
          else \<exists>ranked. mset ranked = mset ?xs
                 \<and> sorted_wrt (\<lambda>a b. relevance ?q b \<le> relevance ?q a) ranked
                 \<and> take (nat limit) ?ranked = take (nat limit) ranked"
      using ex by (simp only: False if_False)
  qed
qed

theorem search_items_ranked_witness:
  "load_items_cached down_env (\<lambda>_. 0) 100 example_client world0
     = (Inr example_snapshot, example_client, world0)
   \<and> (0::int) \<le> 3
   \<and> search_items down_env (\<lambda>_. 0) 100 example_client world0 ''BAUSTELLEN '' 3 =
       (Inr [example_item ''5'' ''Baustellen News'' None [],
             example_item ''2'' ''Verkehrslage'' None [''Verkehr'', ''Baustellen''],
             example_item ''4'' ''Umleitung'' None [''Baustellen'']], example_client, world0)
   \<and> (\<exists>ranked.
          mset ranked = mset (filter (\<lambda>i. 0 < relevance ''baustellen'' i) example_snapshot)
          \<and> sorted_wrt (\<lambda>a b. relevance ''baustellen'' b \<le> relevance ''baustellen'' a) ranked
          \<and> [example_item ''5'' ''Baustellen News'' None [],
              example_item ''2'' ''Verkehrslage'' None [''Verkehr'', ''Baustellen''],
              example_item ''4'' ''Umleitung'' None [''Baustellen'']] = take (nat 3) ranked)
   \<and> search_items down_env (\<lambda>_. 0) 100 example_client world0 ''  '' 2
       = (Inr (take (nat 2) example_snapshot), example_client, world0)"
proof -
  have h1: "load_items_cached down_env (\<lambda>_. 0) 100 example_client world0
              = (Inr example_snapshot, example_client, world0)"
    by (rule example_client_load)
  have h2: "(0::int) \<le> 3" and h3: "(0::int) \<le> 2"
    by simp_all
  show ?thesis
    using search_items_ranked [OF h1 h2, of "''BAUSTELLEN ''"]
      search_items_ranked [OF h1 h3, of "''  ''"] h1
    by (simp add: example_search example_query example_empty_query)
qed

text \<open>
  C10. For a non-empty (stripped, lower-cased) query, the items of any one score appear in
  the result of \<open>search_items\<close> in snapshot order: for every score, the result's items of
  that score are an initial segment of the snapshot's items of that score.
\<close>

theorem search_items_stable:
  assumes "load_items_cached ev clock t self w = (Inr items, self', w')"
    and "strip (lower query) \<noteq> []"
  shows "\<exists>found. search_items ev clock t self w query limit = (Inr found, self', w') \<and>
           (\<forall>k. prefix (filter (\<lambda>i. score_item i (strip (lower query)) = k) found)
                       (filter (\<lambda>i. score_item i (strip (lower query)) = k) items))"
proof -
  let ?q = "strip (lower query)"
  let ?f = "\<lambda>i. score_item i ?q"
  let ?xs = "filter (\<lambda>i. 0 < ?f i) items"
  let ?ps = "score_loop items ?q []"
  let ?ranked = "map snd (sort_reverse ?ps)"
  obtain m where m: "slice_to (sort_reverse ?ps) limit = take m (sort_reverse ?ps)"
    using slice_to_take by blast
  have found: "search_items ev clock t self w query limit = (Inr (take m ?ranked), self', w')"
    using assms m by (simp add: search_items_unfold take_map)
  have ps: "?ps = map (\<lambda>i. (?f i, i)) ?xs"
    by (simp add: score_loop_acc)
  have "prefix (filter (\<lambda>i. ?f i = k) (take m ?ranked)) (filter (\<lambda>i. ?f i = k) items)" for k
  proof -
    have "prefix (filter (\<lambda>i. ?f i = k) (take m ?ranked)) (filter (\<lambda>i. ?f i = k) ?ranked)"
      by (rule prefix_filter_take)
    also have "filter (\<lambda>i. ?f i = k) ?ranked = filter (\<lambda>i. ?f i = k) ?xs"
      by (rule sort_reverse_ranked(3) [OF ps])
    also have "prefix \<dots> (filter (\<lambda>i. ?f i = k) items)"
      by (rule prefix_filter_positive)
    finally show ?thesis .
  qed
  with found show ?thesis by blast
qed


theorem search_items_stable_witness:
  "load_items_cached down_env (\<lambda>_. 0) 100 example_client world0
     = (Inr example_snapshot, example_client, world0)
   \<and> strip (lower ''BAUSTELLEN '') \<noteq> []
   \<and> (\<exists>found. search_items down_env (\<lambda>_. 0) 100 example_client world0 ''BAUSTELLEN '' 3
                  = (Inr found, example_client, world0) \<and>
          (\<forall>k. prefix (filter (\<lambda>i. score_item i (strip (lower ''BAUSTELLEN '')) = k) found)
                      (filter (\<lambda>i. score_item i (strip (lower ''BAUSTELLEN '')) = k)
                         example_snapshot)))"
proof -
  have h1: "load_items_cached down_env (\<lambda>_. 0) 100 example_client world0
              = (Inr example_snapshot, example_client, world0)"
    by (rule example_client_load)
  have h2: "strip (lower ''BAUSTELLEN '') \<noteq> []"
    by (simp add: example_query)
  show ?thesis
    using search_items_stable [OF h1 h2, of 3] h1 h2 by blast
qed

section \<open>Categories\<close>

lemma fold_categories_union:
  "fold (\<lambda>item cats. cats \<union> set (categories item)) items A
     = A \<union> (\<Union>i\<in>set items. set (categories i))"
  by (induction items arbitrary: A) auto

lemma example_categories:
  "get_categories example_client = [''Baustellen'', ''Kultur'', ''Politik'', ''Verkehr'']"
  by code_simp

text \<open>
  C9. \<open>get_categories\<close> returns the empty list when nothing is cached; otherwise its
  result is sorted in ascending (lexicographic) order, has no duplicates, and holds exactly
  the categories of the items of the snapshot.
\<close>

theorem get_categories_sorted_union:
  "(cached_items self = None \<longrightarrow> get_categories self = []) \<and>
   (\<forall>items. cached_items self = Some items \<longrightarrow>
      sorted (get_categories self) \<and> distinct (get_categories self) \<and>
      set (get_categories self) = (\<Union>i\<in>set items. set (categories i)))"
  by (simp add: get_categories_def fold_categories_union)

theorem get_categories_sorted_union_witness:
  "cached_items new_client = None \<and> get_categories new_client = []
   \<and> cached_items example_client = Some example_snapshot
   \<and> get_categories example_client = [''Baustellen'', ''Kultur'', ''Politik'', ''Verkehr'']
   \<and> sorted (get_categories example_client) \<and> distinct (get_categories example_client)
   \<and> set (get_categories example_client) = (\<Union>i\<in>set example_snapshot. set (categories i))"
proof -
  have a: "cached_items new_client = None"
    by (simp add: new_client_def RssClient_init_def)
  have b: "cached_items example_client = Some example_snapshot"
    by (simp add: example_client_def)
  show ?thesis
    using get_categories_sorted_union [of new_client] get_categories_sorted_union [of example_client]
      a b example_categories
    by simp
qed

section \<open>Parsing\<close>

lemma from_rss_item_fields:
  assumes "from_rss_item ev now e = Inr item"
  shows "item_id item = generate_stable_id (extract_title e) (extract_link e) (extract_guid e)"
    and "title item = extract_title e"
    and "raw_guid item = extract_guid e"
    and "anyurl ev (extract_link e) = Some (link item)"
  using assms by (auto simp: from_rss_item_def Let_def split: option.splits)

text \<open>
  C3 (as amended). For every parsed item: when the entry's GUID text, stripped, is not
  empty, the id is that stripped GUID; otherwise the id is the SHA-1 hex digest of the
  stripped title, a bar and the stripped resolved link. Two items without GUID whose
  stripped titles and resolved links are equal have equal ids. (The converse fails: the
  bar may also occur in a title or a link.)
\<close>

theorem item_id_derivation:
  assumes "from_rss_item ev now e = Inr item"
  shows "(\<forall>t. truthy_text (find_child e ''guid'') = Some t \<and> strip t \<noteq> []
              \<longrightarrow> item_id item = strip t)
       \<and> ((truthy_text (find_child e ''guid'') = None
            \<or> (\<exists>t. truthy_text (find_child e ''guid'') = Some t \<and> strip t = []))
              \<longrightarrow> item_id item
                    = sha1_hexdigest (utf8_encode (strip (title item) @ ''|'' @ strip (extract_link e))))
       \<and> (\<forall>ev' now' e' item'.
              from_rss_item ev' now' e' = Inr item'
              \<and> raw_guid item = None \<and> raw_guid item' = None
              \<and> strip (title item) = strip (title item')
              \<and> strip (extract_link e) = strip (extract_link e')
              \<longrightarrow> item_id item = item_id item')"
proof (intro conjI allI impI)
  note f = from_rss_item_fields [OF assms]
  fix t
  assume "truthy_text (find_child e ''guid'') = Some t \<and> strip t \<noteq> []"
  then show "item_id item = strip t"
    by (auto simp: f(1) extract_guid_def generate_stable_id_def strip_idem Let_def)
next
  note f = from_rss_item_fields [OF assms]
  assume "truthy_text (find_child e ''guid'') = None
          \<or> (\<exists>t. truthy_text (find_child e ''guid'') = Some t \<and> strip t = [])"
  then show "item_id item
               = sha1_hexdigest (utf8_encode (strip (title item) @ ''|'' @ strip (extract_link e)))"
    by (auto simp: f(1,2) extract_guid_def generate_stable_id_def Let_def)
next
  note f = from_rss_item_fields [OF assms]
  fix ev' now' e' item'
  assume h: "from_rss_item ev' now' e' = Inr item'
              \<and> raw_guid item = None \<and> raw_guid item' = None
              \<and> strip (title item) = strip (title item')
              \<and> strip (extract_link e) = strip (extract_link e')"
  note f' = from_rss_item_fields [OF h [THEN conjunct1]]
  from h show "item_id item = item_id item'"
    by (simp add: f(1) f'(1) f(2,3) [symmetric] f'(2,3) [symmetric] generate_stable_id_def)
qed


lemma strip_examples:
  "strip ''42'' = ''42''" "strip ''43'' = ''43''" "strip ''A'' = ''A''" "strip ''B'' = ''B''"
  "strip ''/a'' = ''/a''" "strip ''/b'' = ''/b''"
  "strip '' Baustellen News '' = ''Baustellen News''"
  "strip ''Baustellen News'' = ''Baustellen News''"
  "strip ''/pressemeldungen/123'' = ''/pressemeldungen/123''"
  "strip '' Verkehr '' = ''Verkehr''"
  "strip ''Kaputt'' = ''Kaputt''" "strip ''http'' = ''http''"
  "strip ''News'' = ''News''"
  "strip ''News|https://www.stadt-koeln.de/a'' = ''News|https://www.stadt-koeln.de/a''"
  "strip ''/a|https://www.stadt-koeln.de/b'' = ''/a|https://www.stadt-koeln.de/b''"
  "strip pub_date = pub_date"
  "strip ''https://www.stadt-koeln.de/a'' = ''https://www.stadt-koeln.de/a''"
  "strip ''https://www.stadt-koeln.de/b'' = ''https://www.stadt-koeln.de/b''"
  "strip ''https://www.stadt-koeln.de/pressemeldungen/123''
     = ''https://www.stadt-koeln.de/pressemeldungen/123''"
  "strip ''https://www.stadt-koeln.de/a|https://www.stadt-koeln.de/b''
     = ''https://www.stadt-koeln.de/a|https://www.stadt-koeln.de/b''"
  by (simp_all add: pub_date_def) code_simp+

lemma pub_date_nonempty: "pub_date \<noteq> []"
  by (simp add: pub_date_def)

lemma entry_p_parsed:
  "from_rss_item example_env now entry_p =
     Inr \<lparr> item_id = sha1_hexdigest (utf8_encode
                  ''News|https://www.stadt-koeln.de/a|https://www.stadt-koeln.de/b''),
           title = ''News|https://www.stadt-koeln.de/a'',
           link = ''https://www.stadt-koeln.de/b'', description = None,
           published_at = now, categories = [], raw_guid = None,
           source = ''rss:stadt-koeln'' \<rparr>"
  by (simp add: from_rss_item_def entry_p_def example_env_def extract_title_def extract_link_def
      extract_description_def extract_published_at_def extract_guid_def find_child_def
      findall_def truthy_text_def strip_examples startswith_def base_url_def
      generate_stable_id_def Let_def)

lemma entry_q_parsed:
  "from_rss_item example_env now entry_q =
     Inr \<lparr> item_id = sha1_hexdigest (utf8_encode
                  ''News|https://www.stadt-koeln.de/a|https://www.stadt-koeln.de/b''),
           title = ''News'',
           link = ''https://www.stadt-koeln.de/a|https://www.stadt-koeln.de/b'',
           description = None,
           published_at = now, categories = [], raw_guid = None,
           source = ''rss:stadt-koeln'' \<rparr>"
  by (simp add: from_rss_item_def entry_q_def example_env_def extract_title_def extract_link_def
      extract_description_def extract_published_at_def extract_guid_def find_child_def
      findall_def truthy_text_def strip_examples startswith_def base_url_def
      generate_stable_id_def Let_def)

text \<open>
  C3 as stated fails: two entries without GUID whose titles differ and whose links differ
  get the same id, because the title, a bar and the link are joined to the same text.
\<close>

theorem item_id_collision:
  "(case (from_rss_item example_env 0 entry_p, from_rss_item example_env 0 entry_q) of
      (Inr p, Inr q) \<Rightarrow>
        raw_guid p = None \<and> raw_guid q = None \<and> item_id p = item_id q
        \<and> strip (title p) \<noteq> strip (title q) \<and> strip (link p) \<noteq> strip (link q)
    | _ \<Rightarrow> False)"
  by (simp add: entry_p_parsed entry_q_parsed strip_examples)

lemma entry_a_parsed:
  "from_rss_item example_env now entry_a =
     Inr \<lparr> item_id = ''42'', title = ''A'', link = ''https://www.stadt-koeln.de/a'',
           description = None, published_at = now, categories = [], raw_guid = Some ''42'',
           source = ''rss:stadt-koeln'' \<rparr>"
  by (simp add: from_rss_item_def entry_a_def example_env_def extract_title_def extract_link_def
      extract_description_def extract_published_at_def extract_guid_def find_child_def
      findall_def truthy_text_def strip_examples startswith_def base_url_def
      generate_stable_id_def Let_def)

lemma entry_b_parsed:
  "from_rss_item example_env now entry_b =
     Inr \<lparr> item_id = ''42'', title = ''B'', link = ''https://www.stadt-koeln.de/b'',
           description = None, published_at = now, categories = [], raw_guid = Some ''42'',
           source = ''rss:stadt-koeln'' \<rparr>"
  by (simp add: from_rss_item_def entry_b_def example_env_def extract_title_def extract_link_def
      extract_description_def extract_published_at_def extract_guid_def find_child_def
      findall_def truthy_text_def strip_examples startswith_def base_url_def
      generate_stable_id_def Let_def)

lemma entry_news_parsed:
  "from_rss_item example_env now entry_news =
     Inr \<lparr> item_id = sha1_hexdigest (utf8_encode
                  ''Baustellen News|https://www.stadt-koeln.de/pressemeldungen/123''),
           title = ''Baustellen News'',
           link = ''https://www.stadt-koeln.de/pressemeldungen/123'',
           description = None, published_at = 1728981000000000, categories = [''Verkehr''],
           raw_guid = None, source = ''rss:stadt-koeln'' \<rparr>"
  by (simp add: from_rss_item_def entry_news_def example_env_def extract_title_def
      extract_link_def extract_description_def extract_published_at_def extract_guid_def
      find_child_def findall_def truthy_text_def strip_examples startswith_def base_url_def
      generate_stable_id_def category_step_def pub_date_nonempty Let_def)

lemma entry_broken_parsed:
  "from_rss_item example_env now entry_broken = Inl ValidationError"
  by (simp add: from_rss_item_def entry_broken_def example_env_def extract_title_def
      extract_link_def extract_description_def extract_published_at_def extract_guid_def
      find_child_def findall_def truthy_text_def strip_examples startswith_def base_url_def
      generate_stable_id_def pub_date_nonempty Let_def)


lemma surviving_Nil: "surviving ev clock k [] = []"
  by (simp add: surviving_def map_filter_simps)

lemma surviving_Cons:
  "surviving ev clock k (e # es) =
     (case from_rss_item ev (clock k) e of
        Inr p \<Rightarrow> p # surviving ev clock (Suc k) es
      | Inl _ \<Rightarrow> surviving ev clock (Suc k) es)"
  by (simp add: surviving_def map_filter_simps split: sum.splits)

lemma parse_loop_surviving:
  "parse_loop ev clock k es acc = acc @ surviving ev clock k es"
  by (induction es arbitrary: k acc) (simp_all add: surviving_Nil surviving_Cons split: sum.splits)

lemma parse_errors_distinct:
  "invalid_xml \<noteq> missing_channel" "invalid_xml \<noteq> no_valid_items"
  "missing_channel \<noteq> no_valid_items"
  by (simp_all add: invalid_xml_def missing_channel_def no_valid_items_def)

lemma parse_items_cases:
  "parse_items ev clock d =
     (case fromstring ev d of
        None \<Rightarrow> Inl invalid_xml
      | Some r \<Rightarrow>
          (case find_child r ''channel'' of
             None \<Rightarrow> Inl missing_channel
           | Some ch \<Rightarrow>
               if surviving ev clock 0 (findall ch ''item'') = [] then Inl no_valid_items
               else Inr (surviving ev clock 0 (findall ch ''item''))))"
  by (simp add: parse_items_def parse_loop_surviving Let_def split: option.splits)

text \<open>
  C4. \<open>parse_items\<close> raises the invalid-XML error exactly when the XML parser rejects
  the bytes, the missing-channel error exactly when the document has no channel child;
  with a channel, it returns the entries that parse, in order, skipping those that fail,
  and raises the no-valid-items error exactly when none is left.
\<close>

theorem parse_items_outcomes:
  "(parse_items ev clock d = Inl invalid_xml \<longleftrightarrow> fromstring ev d = None)
   \<and> (parse_items ev clock d = Inl missing_channel \<longleftrightarrow>
        (\<exists>r. fromstring ev d = Some r \<and> find_child r ''channel'' = None))
   \<and> (\<forall>r ch. fromstring ev d = Some r \<and> find_child r ''channel'' = Some ch \<longrightarrow>
         parse_items ev clock d =
           (if surviving ev clock 0 (findall ch ''item'') = [] then Inl no_valid_items
            else Inr (surviving ev clock 0 (findall ch ''item''))))
   \<and> (parse_items ev clock d = Inl no_valid_items \<longleftrightarrow>
        (\<exists>r ch. fromstring ev d = Some r \<and> find_child r ''channel'' = Some ch
           \<and> surviving ev clock 0 (findall ch ''item'') = []))"
  using parse_errors_distinct
  by (auto simp: parse_items_cases split: option.splits)

lemma from_rss_item_ok:
  "from_rss_item ev now e =
     (case anyurl ev (extract_link e) of
        None \<Rightarrow> Inl ValidationError
      | Some url \<Rightarrow> Inr \<lparr> item_id = generate_stable_id (extract_title e) (extract_link e) (extract_guid e),
             title = extract_title e, link = url, description = extract_description e,
             published_at = extract_published_at ev now e,
             categories = category_loop (findall e ''category'') [],
             raw_guid = extract_guid e, source = ''rss:stadt-koeln'' \<rparr>)"
  by (simp add: from_rss_item_def Let_def)

lemma surviving_ids:
  "map item_id (surviving ev clock k es) =
     map (\<lambda>e. generate_stable_id (extract_title e) (extract_link e) (extract_guid e))
       (filter (\<lambda>e. anyurl ev (extract_link e) \<noteq> None) es)"
  by (induction es arbitrary: k)
     (auto simp: surviving_Nil surviving_Cons from_rss_item_ok split: option.splits)

lemma generate_stable_id_raw_guid:
  assumes "extract_guid e = Some g" and "g \<noteq> []"
  shows "generate_stable_id t l (extract_guid e) = g"
proof -
  from assms(1) obtain x where "g = strip x"
    by (auto simp: extract_guid_def split: option.splits)
  with assms show ?thesis
    by (simp add: generate_stable_id_def strip_idem)
qed

text \<open>
  C5 (as amended). A snapshot produced by \<open>parse_items\<close> holds one item per entry whose
  link validates, in feed order, with the id derived from that entry; nothing is
  collapsed. Its ids are pairwise distinct when those entries all carry a non-empty
  stripped GUID and these GUIDs are pairwise different.
\<close>

theorem parse_items_ids:
  assumes "parse_items ev clock d = Inr items"
  shows "\<exists>r ch. fromstring ev d = Some r \<and> find_child r ''channel'' = Some ch \<and>
           map item_id items =
             map (\<lambda>e. generate_stable_id (extract_title e) (extract_link e) (extract_guid e))
               (filter (\<lambda>e. anyurl ev (extract_link e) \<noteq> None) (findall ch ''item'')) \<and>
           ((\<forall>e \<in> set (filter (\<lambda>e. anyurl ev (extract_link e) \<noteq> None) (findall ch ''item'')).
                \<exists>g. extract_guid e = Some g \<and> g \<noteq> [])
            \<and> distinct (map extract_guid
                  (filter (\<lambda>e. anyurl ev (extract_link e) \<noteq> None) (findall ch ''item'')))
            \<longrightarrow> distinct (map item_id items))"
proof -
  from assms obtain r ch where r: "fromstring ev d = Some r"
    and ch: "find_child r ''channel'' = Some ch"
    and items: "items = surviving ev clock 0 (findall ch ''item'')"
    by (auto simp: parse_items_cases split: option.splits if_splits)
  let ?ok = "filter (\<lambda>e. anyurl ev (extract_link e) \<noteq> None) (findall ch ''item'')"
  let ?derive = "\<lambda>e. generate_stable_id (extract_title e) (extract_link e) (extract_guid e)"
  have ids: "map item_id items = map ?derive ?ok"
    unfolding items by (rule surviving_ids)
  have "distinct (map item_id items)"
    if g: "\<forall>e \<in> set ?ok. \<exists>g. extract_guid e = Some g \<and> g \<noteq> []"
      and dist: "distinct (map extract_guid ?ok)"
  proof -
    have "map (\<lambda>e. Some (?derive e)) ?ok = map extract_guid ?ok"
    proof (rule map_cong [OF refl])
      fix e assume "e \<in> set ?ok"
      with g obtain x where "extract_guid e = Some x" and "x \<noteq> []"
        by blast
      then show "Some (?derive e) = extract_guid e"
        using generate_stable_id_raw_guid [of e x "extract_title e" "extract_link e"] by simp
    qed
    then have "map Some (map item_id items) = map extract_guid ?ok"
      by (simp add: ids comp_def)
    with dist have "distinct (map Some (map item_id items))"
      by simp
    then show ?thesis
      using distinct_map [of Some "map item_id items"] by blast
  qed
  with r ch ids show ?thesis
    by blast
qed


lemma surviving_clock:
  "map (\<lambda>i. i\<lparr>published_at := 0\<rparr>) (surviving ev clock1 k es)
     = map (\<lambda>i. i\<lparr>published_at := 0\<rparr>) (surviving ev clock2 k es)"
  by (induction es arbitrary: k)
     (auto simp: surviving_Nil surviving_Cons from_rss_item_ok split: option.splits)

lemma surviving_empty_clock:
  "surviving ev clock1 k es = [] \<longleftrightarrow> surviving ev clock2 k es = []"
  using surviving_clock [of ev clock1 k es clock2] by (metis map_is_Nil_conv)

lemma extract_published_at_dated:
  assumes "truthy_text (find_child e ''pubDate'') = Some t"
    and "\<forall>now. dateutil_parse ev now (strip t) = Some dt"
  shows "extract_published_at ev now e = dt"
  using assms by (simp add: extract_published_at_def)

lemma surviving_dated:
  assumes "\<forall>e \<in> set es. \<exists>t dt. truthy_text (find_child e ''pubDate'') = Some t
              \<and> (\<forall>now. dateutil_parse ev now (strip t) = Some dt)"
  shows "surviving ev clock1 k es = surviving ev clock2 k es"
  using assms
proof (induction es arbitrary: k)
  case Nil
  then show ?case by (simp add: surviving_Nil)
next
  case (Cons e es)
  then obtain t dt where "truthy_text (find_child e ''pubDate'') = Some t"
    and "\<forall>now. dateutil_parse ev now (strip t) = Some dt"
    by auto
  then have "extract_published_at ev (clock1 k) e = extract_published_at ev (clock2 k) e"
    by (simp add: extract_published_at_dated)
  then have "from_rss_item ev (clock1 k) e = from_rss_item ev (clock2 k) e"
    by (simp add: from_rss_item_ok split: option.splits)
  moreover have "surviving ev clock1 (Suc k) es = surviving ev clock2 (Suc k) es"
    using Cons by simp
  ultimately show ?case
    by (simp add: surviving_Cons split: sum.splits)
qed

text \<open>
  C7 (as amended). Two parses of the same bytes give the same error, or item sequences
  that agree in everything but the publication timestamps (ids, titles, links,
  descriptions, categories, GUIDs, in the same order); they agree in the timestamps too
  when every entry carries a publication date that the date parser accepts with a result
  that does not depend on the current time.
\<close>

theorem parse_items_twice:
  "map_sum id (map (\<lambda>i. i\<lparr>published_at := 0\<rparr>)) (parse_items ev clock1 d)
     = map_sum id (map (\<lambda>i. i\<lparr>published_at := 0\<rparr>)) (parse_items ev clock2 d)
   \<and> ((\<forall>r ch e. fromstring ev d = Some r \<and> find_child r ''channel'' = Some ch
                \<and> e \<in> set (findall ch ''item'')
              \<longrightarrow> (\<exists>t dt. truthy_text (find_child e ''pubDate'') = Some t
                     \<and> (\<forall>now. dateutil_parse ev now (strip t) = Some dt)))
        \<longrightarrow> parse_items ev clock1 d = parse_items ev clock2 d)"
proof (intro conjI impI)
  show "map_sum id (map (\<lambda>i. i\<lparr>published_at := 0\<rparr>)) (parse_items ev clock1 d)
          = map_sum id (map (\<lambda>i. i\<lparr>published_at := 0\<rparr>)) (parse_items ev clock2 d)"
    using surviving_clock [of ev clock1 0 _ clock2] surviving_empty_clock [of ev clock1 0 _ clock2]
    by (simp add: parse_items_cases split: option.splits)
next
  assume h: "\<forall>r ch e. fromstring ev d = Some r \<and> find_child r ''channel'' = Some ch
                \<and> e \<in> set (findall ch ''item'')
              \<longrightarrow> (\<exists>t dt. truthy_text (find_child e ''pubDate'') = Some t
                     \<and> (\<forall>now. dateutil_parse ev now (strip t) = Some dt))"
  show "parse_items ev clock1 d = parse_items ev clock2 d"
  proof (cases "fromstring ev d")
    case None
    then show ?thesis by (simp add: parse_items_cases)
  next
    case (Some r)
    show ?thesis
    proof (cases "find_child r ''channel''")
      case None
      with Some show ?thesis by (simp add: parse_items_cases)
    next
      case (Some ch)
      with \<open>fromstring ev d = Some r\<close> h
      have "\<forall>e \<in> set (findall ch ''item''). \<exists>t dt.
              truthy_text (find_child e ''pubDate'') = Some t
              \<and> (\<forall>now. dateutil_parse ev now (strip t) = Some dt)"
        by blast
      then have "surviving ev clock1 0 (findall ch ''item'')
                   = surviving ev clock2 0 (findall ch ''item'')"
        by (rule surviving_dated)
      with Some \<open>fromstring ev d = Some r\<close> show ?thesis
        by (simp add: parse_items_cases)
    qed
  qed
qed


lemma example_fromstring:
  "fromstring example_env feed_two = Some (rss_doc [entry_a, entry_b])"
  "fromstring example_env feed_mixed = Some (rss_doc [entry_news, entry_broken])"
  "fromstring example_env feed_three = Some (rss_doc [entry_a, entry_c])"
  "fromstring example_env feed_broken = Some (rss_doc [entry_broken])"
  "fromstring example_env feed_no_channel = Some (Element ''rss'' None [])"
  "fromstring example_env feed_malformed = None"
  by (simp_all add: example_env_def feed_two_def feed_three_def feed_mixed_def feed_broken_def
      feed_no_channel_def feed_malformed_def)

lemma example_channel:
  "find_child (rss_doc es) ''channel'' = Some (Element ''channel'' None es)"
  "find_child (Element ''rss'' None []) ''channel'' = None"
  by (simp_all add: rss_doc_def find_child_def)

lemma example_entries:
  "findall (Element ''channel'' None [entry_a, entry_b]) ''item'' = [entry_a, entry_b]"
  "findall (Element ''channel'' None [entry_news, entry_broken]) ''item''
     = [entry_news, entry_broken]"
  "findall (Element ''channel'' None [entry_broken]) ''item'' = [entry_broken]"
  "findall (Element ''channel'' None [entry_a, entry_c]) ''item'' = [entry_a, entry_c]"
  by (simp_all add: findall_def entry_a_def entry_b_def entry_c_def entry_news_def
      entry_broken_def)

lemma surviving_two:
  "surviving example_env clock 0 [entry_a, entry_b] =
     [\<lparr> item_id = ''42'', title = ''A'', link = ''https://www.stadt-koeln.de/a'',
        description = None, published_at = clock 0, categories = [], raw_guid = Some ''42'',
        source = ''rss:stadt-koeln'' \<rparr>,
      \<lparr> item_id = ''42'', title = ''B'', link = ''https://www.stadt-koeln.de/b'',
        description = None, published_at = clock 1, categories = [], raw_guid = Some ''42'',
        source = ''rss:stadt-koeln'' \<rparr>]"
  by (simp add: surviving_Cons surviving_Nil entry_a_parsed entry_b_parsed)

lemma surviving_mixed:
  "surviving example_env clock 0 [entry_news, entry_broken] =
     [\<lparr> item_id = sha1_hexdigest (utf8_encode
                  ''Baustellen News|https://www.stadt-koeln.de/pressemeldungen/123''),
        title = ''Baustellen News'',
        link = ''https://www.stadt-koeln.de/pressemeldungen/123'',
        description = None, published_at = 1728981000000000, categories = [''Verkehr''],
        raw_guid = None, source = ''rss:stadt-koeln'' \<rparr>]"
  by (simp add: surviving_Cons surviving_Nil entry_news_parsed entry_broken_parsed)

lemma surviving_broken: "surviving example_env clock 0 [entry_broken] = []"
  by (simp add: surviving_Cons surviving_Nil entry_broken_parsed)

lemma parse_feed_two:
  "parse_items example_env clock feed_two =
     Inr [\<lparr> item_id = ''42'', title = ''A'', link = ''https://www.stadt-koeln.de/a'',
            description = None, published_at = clock 0, categories = [],
            raw_guid = Some ''42'', source = ''rss:stadt-koeln'' \<rparr>,
          \<lparr> item_id = ''42'', title = ''B'', link = ''https://www.stadt-koeln.de/b'',
            description = None, published_at = clock 1, categories = [],
            raw_guid = Some ''42'', source = ''rss:stadt-koeln'' \<rparr>]"
  by (simp add: parse_items_cases example_fromstring example_channel example_entries
      surviving_two)

text \<open>
  C5 as stated fails: a feed with two entries of the same GUID gives a snapshot of two
  distinct items with the same id.
\<close>

theorem parse_items_duplicate_ids:
  "(case parse_items example_env (\<lambda>_. 0) feed_two of
      Inr items \<Rightarrow> length items = 2 \<and> distinct items \<and> \<not> distinct (map item_id items)
    | Inl _ \<Rightarrow> False)"
  by (simp add: parse_feed_two)

text \<open>
  C7 as stated fails: an entry without a publication date gets the time of the parse, so
  two parses of the same bytes at different times differ in their timestamps.
\<close>

theorem parse_items_clock_dependent:
  "(case (parse_items example_env (\<lambda>_. 0) feed_two, parse_items example_env (\<lambda>_. 1) feed_two) of
      (Inr first_run, Inr second_run) \<Rightarrow>
         map published_at first_run \<noteq> map published_at second_run
    | _ \<Rightarrow> False)"
  by (simp add: parse_feed_two)

theorem parse_items_outcomes_witness:
  "fromstring example_env feed_malformed = None
   \<and> parse_items example_env (\<lambda>_. 0) feed_malformed = Inl invalid_xml
   \<and> fromstring example_env feed_no_channel = Some (Element ''rss'' None [])
   \<and> find_child (Element ''rss'' None []) ''channel'' = None
   \<and> parse_items example_env (\<lambda>_. 0) feed_no_channel = Inl missing_channel
   \<and> fromstring example_env feed_broken = Some (rss_doc [entry_broken])
   \<and> find_child (rss_doc [entry_broken]) ''channel'' = Some (Element ''channel'' None [entry_broken])
   \<and> surviving example_env (\<lambda>_. 0) 0 (findall (Element ''channel'' None [entry_broken]) ''item'') = []
   \<and> parse_items example_env (\<lambda>_. 0) feed_broken = Inl no_valid_items
   \<and> fromstring example_env feed_mixed = Some (rss_doc [entry_news, entry_broken])
   \<and> find_child (rss_doc [entry_news, entry_broken]) ''channel''
       = Some (Element ''channel'' None [entry_news, entry_broken])
   \<and> from_rss_item example_env 0 entry_broken = Inl ValidationError
   \<and> parse_items example_env (\<lambda>_. 0) feed_mixed =
       Inr [\<lparr> item_id = sha1_hexdigest (utf8_encode
                    ''Baustellen News|https://www.stadt-koeln.de/pressemeldungen/123''),
              title = ''Baustellen News'',
              link = ''https://www.stadt-koeln.de/pressemeldungen/123'',
              description = None, published_at = 1728981000000000,
              categories = [''Verkehr''], raw_guid = None, source = ''rss:stadt-koeln'' \<rparr>]"
proof -
  note o = parse_items_outcomes [of example_env "\<lambda>_. 0"]
  have 1: "parse_items example_env (\<lambda>_. 0) feed_malformed = Inl invalid_xml"
    using o [of feed_malformed] by (simp add: example_fromstring)
  have 2: "parse_items example_env (\<lambda>_. 0) feed_no_channel = Inl missing_channel"
    using o [of feed_no_channel] by (simp add: example_fromstring example_channel)
  have 3: "parse_items example_env (\<lambda>_. 0) feed_broken = Inl no_valid_items"
    using o [of feed_broken]
    by (simp add: example_fromstring example_channel example_entries surviving_broken)
  have 4: "parse_items example_env (\<lambda>_. 0) feed_mixed =
       Inr [\<lparr> item_id = sha1_hexdigest (utf8_encode
                    ''Baustellen News|https://www.stadt-koeln.de/pressemeldungen/123''),
              title = ''Baustellen News'',
              link = ''https://www.stadt-koeln.de/pressemeldungen/123'',
              description = None, published_at = 1728981000000000,
              categories = [''Verkehr''], raw_guid = None, source = ''rss:stadt-koeln'' \<rparr>]"
    using o [of feed_mixed]
    by (simp add: example_fromstring example_channel example_entries surviving_mixed)
  show ?thesis
    by (simp add: 1 2 3 4 example_fromstring example_channel example_entries surviving_broken
        entry_broken_parsed)
qed


lemma entry_c_parsed:
  "from_rss_item example_env now entry_c =
     Inr \<lparr> item_id = ''43'', title = ''A'', link = ''https://www.stadt-koeln.de/a'',
           description = None, published_at = now, categories = [], raw_guid = Some ''43'',
           source = ''rss:stadt-koeln'' \<rparr>"
  by (simp add: from_rss_item_def entry_c_def example_env_def extract_title_def extract_link_def
      extract_description_def extract_published_at_def extract_guid_def find_child_def
      findall_def truthy_text_def strip_examples startswith_def base_url_def
      generate_stable_id_def Let_def)

lemma example_guids:
  "truthy_text (find_child entry_a ''guid'') = Some ''42''"
  "truthy_text (find_child entry_news ''guid'') = None"
  "extract_guid entry_a = Some ''42''" "extract_guid entry_c = Some ''43''"
  by (simp_all add: entry_a_def entry_c_def entry_news_def find_child_def truthy_text_def
      extract_guid_def strip_examples)

lemma example_links:
  "extract_link entry_a = ''https://www.stadt-koeln.de/a''"
  "extract_link entry_c = ''https://www.stadt-koeln.de/a''"
  "extract_link entry_news = ''https://www.stadt-koeln.de/pressemeldungen/123''"
  by (simp_all add: entry_a_def entry_c_def entry_news_def find_child_def truthy_text_def
      extract_link_def strip_examples startswith_def base_url_def)

lemma example_dates:
  "truthy_text (find_child entry_news ''pubDate'') = Some pub_date"
  "truthy_text (find_child entry_broken ''pubDate'') = Some pub_date"
  "dateutil_parse example_env now (strip pub_date) = Some 1728981000000000"
  by (simp_all add: entry_news_def entry_broken_def find_child_def truthy_text_def
      pub_date_nonempty strip_examples example_env_def)

theorem item_id_derivation_witness:
  "from_rss_item example_env 0 entry_a =
     Inr \<lparr> item_id = ''42'', title = ''A'', link = ''https://www.stadt-koeln.de/a'',
           description = None, published_at = 0, categories = [], raw_guid = Some ''42'',
           source = ''rss:stadt-koeln'' \<rparr>
   \<and> truthy_text (find_child entry_a ''guid'') = Some ''42'' \<and> strip ''42'' = ''42''
   \<and> from_rss_item example_env 0 entry_news =
     Inr \<lparr> item_id = sha1_hexdigest (utf8_encode
                  ''Baustellen News|https://www.stadt-koeln.de/pressemeldungen/123''),
           title = ''Baustellen News'',
           link = ''https://www.stadt-koeln.de/pressemeldungen/123'',
           description = None, published_at = 1728981000000000, categories = [''Verkehr''],
           raw_guid = None, source = ''rss:stadt-koeln'' \<rparr>
   \<and> truthy_text (find_child entry_news ''guid'') = None
   \<and> strip ''Baustellen News'' @ ''|'' @ strip (extract_link entry_news)
       = ''Baustellen News|https://www.stadt-koeln.de/pressemeldungen/123''"
proof -
  have a: "item_id \<lparr> item_id = ''42'', title = ''A'', link = ''https://www.stadt-koeln.de/a'',
           description = None, published_at = 0, categories = [], raw_guid = Some ''42'',
           source = ''rss:stadt-koeln'' \<rparr> = strip ''42''"
    using item_id_derivation [OF entry_a_parsed [of 0]]
    by (simp add: example_guids strip_examples)
  have n: "item_id \<lparr> item_id = sha1_hexdigest (utf8_encode
                  ''Baustellen News|https://www.stadt-koeln.de/pressemeldungen/123''),
           title = ''Baustellen News'',
           link = ''https://www.stadt-koeln.de/pressemeldungen/123'',
           description = None, published_at = 1728981000000000, categories = [''Verkehr''],
           raw_guid = None, source = ''rss:stadt-koeln'' \<rparr>
         = sha1_hexdigest (utf8_encode
             (strip ''Baustellen News'' @ ''|'' @ strip (extract_link entry_news)))"
    using item_id_derivation [OF entry_news_parsed [of 0]]
    by (simp add: example_guids)
  show ?thesis
    using a n
    by (simp add: entry_a_parsed entry_news_parsed example_guids example_links strip_examples)
qed

lemma parse_feed_three:
  "parse_items example_env clock feed_three =
     Inr [\<lparr> item_id = ''42'', title = ''A'', link = ''https://www.stadt-koeln.de/a'',
            description = None, published_at = clock 0, categories = [],
            raw_guid = Some ''42'', source = ''rss:stadt-koeln'' \<rparr>,
          \<lparr> item_id = ''43'', title = ''A'', link = ''https://www.stadt-koeln.de/a'',
            description = None, published_at = clock 1, categories = [],
            raw_guid = Some ''43'', source = ''rss:stadt-koeln'' \<rparr>]"
  by (simp add: parse_items_cases example_fromstring example_channel example_entries
      surviving_Cons surviving_Nil entry_a_parsed entry_c_parsed)

lemma example_anyurl: "anyurl example_env ''https://www.stadt-koeln.de/a'' \<noteq> None"
  by (simp add: example_env_def startswith_def)

theorem parse_items_ids_witness:
  "parse_items example_env (\<lambda>_. 0) feed_three =
     Inr [\<lparr> item_id = ''42'', title = ''A'', link = ''https://www.stadt-koeln.de/a'',
            description = None, published_at = 0, categories = [],
            raw_guid = Some ''42'', source = ''rss:stadt-koeln'' \<rparr>,
          \<lparr> item_id = ''43'', title = ''A'', link = ''https://www.stadt-koeln.de/a'',
            description = None, published_at = 0, categories = [],
            raw_guid = Some ''43'', source = ''rss:stadt-koeln'' \<rparr>]
   \<and> filter (\<lambda>e. anyurl example_env (extract_link e) \<noteq> None) [entry_a, entry_c]
       = [entry_a, entry_c]
   \<and> map extract_guid [entry_a, entry_c] = [Some ''42'', Some ''43'']
   \<and> distinct (map item_id
         [\<lparr> item_id = ''42'', title = ''A'', link = ''https://www.stadt-koeln.de/a'',
            description = None, published_at = 0, categories = [],
            raw_guid = Some ''42'', source = ''rss:stadt-koeln'' \<rparr>,
          \<lparr> item_id = ''43'', title = ''A'', link = ''https://www.stadt-koeln.de/a'',
            description = None, published_at = 0, categories = [],
            raw_guid = Some ''43'', source = ''rss:stadt-koeln'' \<rparr>])"
proof -
  let ?items = "[\<lparr> item_id = ''42'', title = ''A'', link = ''https://www.stadt-koeln.de/a'',
            description = None, published_at = 0, categories = [],
            raw_guid = Some ''42'', source = ''rss:stadt-koeln'' \<rparr>,
          \<lparr> item_id = ''43'', title = ''A'', link = ''https://www.stadt-koeln.de/a'',
            description = None, published_at = 0, categories = [],
            raw_guid = Some ''43'', source = ''rss:stadt-koeln'' \<rparr>]"
  have p: "parse_items example_env (\<lambda>_. 0) feed_three = Inr ?items"
    by (rule parse_feed_three)
  have ok: "filter (\<lambda>e. anyurl example_env (extract_link e) \<noteq> None) [entry_a, entry_c]
              = [entry_a, entry_c]"
    using example_anyurl by (simp add: example_links)
  have g: "map extract_guid [entry_a, entry_c] = [Some ''42'', Some ''43'']"
    by (simp add: example_guids)
  from parse_items_ids [OF p] obtain r ch
    where r: "fromstring example_env feed_three = Some r"
      and ch: "find_child r ''channel'' = Some ch"
      and imp: "(\<forall>e \<in> set (filter (\<lambda>e. anyurl example_env (extract_link e) \<noteq> None)
                               (findall ch ''item'')).
                   \<exists>g. extract_guid e = Some g \<and> g \<noteq> [])
                \<and> distinct (map extract_guid
                      (filter (\<lambda>e. anyurl example_env (extract_link e) \<noteq> None)
                         (findall ch ''item'')))
                \<longrightarrow> distinct (map item_id ?items)"
    by blast
  from r have "r = rss_doc [entry_a, entry_c]"
    by (simp add: example_fromstring)
  with ch have "ch = Element ''channel'' None [entry_a, entry_c]"
    by (simp add: example_channel)
  then have es: "findall ch ''item'' = [entry_a, entry_c]"
    by (simp add: example_entries)
  have "distinct (map item_id ?items)"
    using imp unfolding es ok by (simp add: example_guids)
  with p ok g show ?thesis
    by blast
qed

theorem parse_items_twice_witness:
  "fromstring example_env feed_mixed = Some (rss_doc [entry_news, entry_broken])
   \<and> find_child (rss_doc [entry_news, entry_broken]) ''channel''
       = Some (Element ''channel'' None [entry_news, entry_broken])
   \<and> findall (Element ''channel'' None [entry_news, entry_broken]) ''item''
       = [entry_news, entry_broken]
   \<and> truthy_text (find_child entry_news ''pubDate'') = Some pub_date
   \<and> truthy_text (find_child entry_broken ''pubDate'') = Some pub_date
   \<and> (\<forall>now. dateutil_parse example_env now (strip pub_date) = Some 1728981000000000)
   \<and> parse_items example_env (\<lambda>_. 0) feed_mixed = parse_items example_env (\<lambda>_. 1) feed_mixed
   \<and> map_sum id (map (\<lambda>i. i\<lparr>published_at := 0\<rparr>)) (parse_items example_env (\<lambda>_. 0) feed_two)
       = map_sum id (map (\<lambda>i. i\<lparr>published_at := 0\<rparr>)) (parse_items example_env (\<lambda>_. 1) feed_two)"
proof -
  have h: "\<forall>r ch e. fromstring example_env feed_mixed = Some r \<and> find_child r ''channel'' = Some ch
        \<and> e \<in> set (findall ch ''item'')
      \<longrightarrow> (\<exists>t dt. truthy_text (find_child e ''pubDate'') = Some t
             \<and> (\<forall>now. dateutil_parse example_env now (strip t) = Some dt))"
    by (auto simp: example_fromstring example_channel example_entries example_dates)
  have "parse_items example_env (\<lambda>_. 0) feed_mixed = parse_items example_env (\<lambda>_. 1) feed_mixed"
    using parse_items_twice [of example_env "\<lambda>_. 0" feed_mixed "\<lambda>_. 1"] h by blast
  moreover have "map_sum id (map (\<lambda>i. i\<lparr>published_at := 0\<rparr>))
                   (parse_items example_env (\<lambda>_. 0) feed_two)
       = map_sum id (map (\<lambda>i. i\<lparr>published_at := 0\<rparr>))
           (parse_items example_env (\<lambda>_. 1) feed_two)"
    using parse_items_twice [of example_env "\<lambda>_. 0" feed_two "\<lambda>_. 1"] by blast
  ultimately show ?thesis
    by (simp add: example_fromstring example_channel example_entries example_dates)
qed

end
